theory Spec2Isabelle
  imports Main "HOL-Library.Word"
begin

section \<open>Entity tables\<close>

text \<open>
  The raw rows of the three entity tables. Their Go declarations are generated code that
  is not part of the sources at hand; the fields below are the ones the storage code reads
  (\<open>WebsiteID\<close>, \<open>DefaultGroupID\<close>, \<open>IsDefault.Bool\<close>, \<open>IsDefault.Valid\<close>,
  \<open>GroupID\<close>, \<open>DefaultStoreID\<close>, \<open>StoreID\<close>) together with the codes and the
  active flag of the data model. Identifiers are Go \<open>int64\<close>; only equality is ever
  used on them. A table is a list of rows; Go's nil slice and its empty slice are both
  the empty list.
\<close>

type_synonym int64 = "64 word"

record NullBool =
  Bool :: bool
  Valid :: bool

record TableWebsite =
  tw_WebsiteID :: int64
  tw_Code :: string
  tw_DefaultGroupID :: int64
  tw_IsDefault :: NullBool

record TableGroup =
  tg_GroupID :: int64
  tg_WebsiteID :: int64
  tg_DefaultStoreID :: int64

record TableStore =
  ts_StoreID :: int64
  ts_Code :: string
  ts_WebsiteID :: int64
  ts_GroupID :: int64
  ts_IsActive :: bool

section \<open>Errors and selectors\<close>

text \<open>
  The three sentinel errors of the store package, an error reported by the data source,
  and the wrapper that \<open>errgo.Mask\<close> puts around a non-nil error (same message, new
  location). \<open>errgo.Mask\<close> of nil is nil. \<open>IntegrityFault\<close> is not an error value
  that a method returns: it stands for the panic of a composition that meets an integrity
  violation. A panic leaves every caller on the way without a return value, so it is
  handed on as it is and never wrapped by \<open>errgo.Mask\<close>.
\<close>

datatype error =
    ErrWebsiteNotFound
  | ErrGroupNotFound
  | ErrStoreNotFound
  | DataSourceError string
  | Masked error
  | IntegrityFault

fun Underlying :: "error \<Rightarrow> error" where
  "Underlying (Masked e) = Underlying e"
| "Underlying ErrWebsiteNotFound = ErrWebsiteNotFound"
| "Underlying ErrGroupNotFound = ErrGroupNotFound"
| "Underlying ErrStoreNotFound = ErrStoreNotFound"
| "Underlying (DataSourceError m) = DataSourceError m"
| "Underlying IntegrityFault = IntegrityFault"

fun errgo_Mask :: "error option \<Rightarrow> error option" where
  "errgo_Mask None = None"
| "errgo_Mask (Some e) = Some (Masked e)"

text \<open>
  A \<open>config.ScopeIDer\<close> value exposes a numeric ID; it may also be a
  \<open>config.ScopeCoder\<close> and expose a code (\<open>ScopeCode = None\<close> when it is not).
  An interface argument that is nil is \<open>None\<close> of the option type.
  \<open>config.ScopeID(n)\<close> is an ID without a code.
\<close>

datatype ScopeIDer = Selector (ScopeID: int64) (ScopeCode: "string option")

definition config_ScopeID :: "int64 \<Rightarrow> ScopeIDer option" where
  "config_ScopeID n = Some (Selector n None)"

section \<open>Table lookups\<close>

text \<open>
  Modelled from the spec: the slice methods \<open>FindByID\<close> and \<open>FindByCode\<close> of the three
  table types are not part of the sources at hand. A lookup scans the table in order and
  returns the first row whose identifier (or code) equals the argument; a lookup that
  resolves to nothing fails with the not-found error of its entity kind
  (\<open>WebsiteNotFound\<close>, \<open>GroupNotFound\<close>, \<open>StoreNotFound\<close>).
\<close>

definition tws_FindByID :: "TableWebsite list \<Rightarrow> int64 \<Rightarrow> error + TableWebsite" where
  "tws_FindByID tws n =
     (case find (\<lambda>w. tw_WebsiteID w = n) tws of
        None \<Rightarrow> Inl ErrWebsiteNotFound | Some w \<Rightarrow> Inr w)"

text \<open>
  Modelled from the spec: \<open>TableWebsiteSlice.FindByCode\<close>, missing from the
  sources; first row with that code, else \<open>WebsiteNotFound\<close>.
\<close>

definition tws_FindByCode :: "TableWebsite list \<Rightarrow> string \<Rightarrow> error + TableWebsite" where
  "tws_FindByCode tws c =
     (case find (\<lambda>w. tw_Code w = c) tws of
        None \<Rightarrow> Inl ErrWebsiteNotFound | Some w \<Rightarrow> Inr w)"

text \<open>
  Modelled from the spec: \<open>TableGroupSlice.FindByID\<close>, missing from the sources;
  first row with that ID, else \<open>GroupNotFound\<close>.
\<close>

definition tgs_FindByID :: "TableGroup list \<Rightarrow> int64 \<Rightarrow> error + TableGroup" where
  "tgs_FindByID tgs n =
     (case find (\<lambda>g. tg_GroupID g = n) tgs of
        None \<Rightarrow> Inl ErrGroupNotFound | Some g \<Rightarrow> Inr g)"

text \<open>
  Modelled from the spec: \<open>TableStoreSlice.FindByID\<close>, missing from the sources;
  first row with that ID, else \<open>StoreNotFound\<close>.
\<close>

definition tss_FindByID :: "TableStore list \<Rightarrow> int64 \<Rightarrow> error + TableStore" where
  "tss_FindByID tss n =
     (case find (\<lambda>s. ts_StoreID s = n) tss of
        None \<Rightarrow> Inl ErrStoreNotFound | Some s \<Rightarrow> Inr s)"

text \<open>
  Modelled from the spec: \<open>TableStoreSlice.FindByCode\<close>, missing from the sources;
  first row with that code, else \<open>StoreNotFound\<close>.
\<close>

definition tss_FindByCode :: "TableStore list \<Rightarrow> string \<Rightarrow> error + TableStore" where
  "tss_FindByCode tss c =
     (case find (\<lambda>s. ts_Code s = c) tss of
        None \<Rightarrow> Inl ErrStoreNotFound | Some s \<Rightarrow> Inr s)"

section \<open>Composed views\<close>

text \<open>
  Modelled from the spec: the view types and their constructors (\<open>NewWebsite\<close>,
  \<open>SetGroupsStores\<close>, \<open>NewGroup\<close>, \<open>SetGroupWebsite\<close>, \<open>SetStores\<close>, \<open>NewStore\<close>) are
  not part of the sources at hand. Composition is pure: a Website gets every Group whose
  Website foreign key matches and every Store reachable through those Groups; a Group
  gets every Store whose Group foreign key matches, plus its parent Website; a Store gets
  its parent Group and that Group's Website. Views are value snapshots, so the attached
  related entities are kept as rows. A Group built without \<open>SetGroupWebsite\<close> has no
  Website attached. Of \<open>Website\<close> and \<open>Websites\<close> the interface comments in the sources
  say: "It panics when the integrity is incorrect".
\<close>

record Website =
  w_Data :: TableWebsite
  w_Groups :: "TableGroup list"
  w_Stores :: "TableStore list"

record Group =
  g_Data :: TableGroup
  g_Website :: "TableWebsite option"
  g_Stores :: "TableStore list"

record Store =
  s_Data :: TableStore
  s_Website :: Website
  s_Group :: Group

text \<open>
  Modelled from the spec: \<open>NewWebsite\<close>, missing from the sources; the view of a
  row with nothing attached yet.
\<close>

definition NewWebsite :: "TableWebsite \<Rightarrow> Website" where
  "NewWebsite w = \<lparr>w_Data = w, w_Groups = [], w_Stores = []\<rparr>"

text \<open>
  Modelled from the spec: \<open>Website.SetGroupsStores\<close>, missing from the sources;
  attaches the groups of the website and the stores reachable through those groups. A
  Store belongs to one Group and to that Group's Website: a store row reached through a
  group of the website whose own \<open>WebsiteID\<close> is not the website's breaks that
  integrity, and the composition panics, which is the result \<open>None\<close>.
\<close>

definition SetGroupsStores ::
  "Website \<Rightarrow> TableGroup list \<Rightarrow> TableStore list \<Rightarrow> Website option" where
  "SetGroupsStores v tgs tss =
     (let gs = filter (\<lambda>g. tg_WebsiteID g = tw_WebsiteID (w_Data v)) tgs;
          ss = filter (\<lambda>s. ts_GroupID s \<in> set (map tg_GroupID gs)) tss
      in if list_ex (\<lambda>s. ts_WebsiteID s \<noteq> tw_WebsiteID (w_Data v)) ss
         then None
         else Some (v\<lparr>w_Groups := gs, w_Stores := ss\<rparr>))"

text \<open>
  Modelled from the spec: \<open>NewGroup\<close> with its option
  \<open>SetGroupWebsite\<close>, missing from the sources; the view of a row with its
  website, no stores attached yet.
\<close>

definition NewGroup :: "TableGroup \<Rightarrow> TableWebsite option \<Rightarrow> Group" where
  "NewGroup g w = \<lparr>g_Data = g, g_Website = w, g_Stores = []\<rparr>"

text \<open>
  Modelled from the spec: \<open>Group.SetStores\<close>, missing from the sources; attaches
  the stores of the group, and the website when one is passed.
\<close>

definition SetStores :: "Group \<Rightarrow> TableStore list \<Rightarrow> TableWebsite option \<Rightarrow> Group" where
  "SetStores v tss w =
     v\<lparr>g_Stores := filter (\<lambda>s. ts_GroupID s = tg_GroupID (g_Data v)) tss,
       g_Website := (case w of None \<Rightarrow> g_Website v | Some x \<Rightarrow> Some x)\<rparr>"

text \<open>
  Modelled from the spec: \<open>NewStore\<close>, missing from the sources; the view of a
  store row with its website and its group.
\<close>

definition NewStore :: "TableStore \<Rightarrow> TableWebsite \<Rightarrow> TableGroup \<Rightarrow> Store" where
  "NewStore s w g = \<lparr>s_Data = s, s_Website = NewWebsite w, s_Group = NewGroup g (Some w)\<rparr>"

section \<open>Scope storage\<close>

text \<open>
  \<open>Storage\<close> holds the three tables. Its configuration reader is only handed on to the
  views and its mutex is only touched by \<open>ReInit\<close>; neither is read by a lookup.
\<close>

record Storage =
  websites :: "TableWebsite list"
  groups :: "TableGroup list"
  stores :: "TableStore list"

definition NewStorage :: Storage where
  "NewStorage = \<lparr>websites = [], groups = [], stores = []\<rparr>"

definition website :: "Storage \<Rightarrow> ScopeIDer option \<Rightarrow> error + TableWebsite" where
  "website st r =
     (case r of
        None \<Rightarrow> Inl ErrWebsiteNotFound
      | Some c \<Rightarrow>
          (case ScopeCode c of
             Some code \<Rightarrow>
               if code \<noteq> [] then tws_FindByCode (websites st) code
               else tws_FindByID (websites st) (ScopeID c)
           | None \<Rightarrow> tws_FindByID (websites st) (ScopeID c)))"

definition Website :: "Storage \<Rightarrow> ScopeIDer option \<Rightarrow> error + Website" where
  "Website st r =
     (case website st r of
        Inl err \<Rightarrow> Inl err
      | Inr w \<Rightarrow>
          (case SetGroupsStores (NewWebsite w) (groups st) (stores st) of
             None \<Rightarrow> Inl IntegrityFault
           | Some v \<Rightarrow> Inr v))"

text \<open>
  The loop of \<open>Websites\<close>: it composes row after row and has no error to return; a
  composition that panics ends it.
\<close>

fun Websites_loop :: "Storage \<Rightarrow> TableWebsite list \<Rightarrow> error + Website list" where
  "Websites_loop st [] = Inr []"
| "Websites_loop st (w # ws) =
     (case SetGroupsStores (NewWebsite w) (groups st) (stores st) of
        None \<Rightarrow> Inl IntegrityFault
      | Some v \<Rightarrow>
          (case Websites_loop st ws of
             Inl err \<Rightarrow> Inl err
           | Inr rest \<Rightarrow> Inr (v # rest)))"

definition Websites :: "Storage \<Rightarrow> error + Website list" where
  "Websites st = Websites_loop st (websites st)"

definition group :: "Storage \<Rightarrow> ScopeIDer option \<Rightarrow> error + TableGroup" where
  "group st r =
     (case r of
        None \<Rightarrow> Inl ErrGroupNotFound
      | Some c \<Rightarrow> tgs_FindByID (groups st) (ScopeID c))"

definition Group :: "Storage \<Rightarrow> ScopeIDer option \<Rightarrow> error + Group" where
  "Group st r =
     (case group st r of
        Inl err \<Rightarrow> Inl err
      | Inr g \<Rightarrow>
          (case website st (config_ScopeID (tg_WebsiteID g)) of
             Inl err \<Rightarrow> Inl err
           | Inr w \<Rightarrow> Inr (SetStores (NewGroup g (Some w)) (stores st) None)))"

text \<open>The loop of \<open>Groups\<close>: the first row whose website does not resolve ends it.\<close>

fun Groups_loop :: "Storage \<Rightarrow> TableGroup list \<Rightarrow> error + Group list" where
  "Groups_loop st [] = Inr []"
| "Groups_loop st (g # gs) =
     (case website st (config_ScopeID (tg_WebsiteID g)) of
        Inl err \<Rightarrow> Inl (Masked err)
      | Inr w \<Rightarrow>
          (case Groups_loop st gs of
             Inl err \<Rightarrow> Inl err
           | Inr rest \<Rightarrow> Inr (SetStores (NewGroup g (Some w)) (stores st) None # rest)))"

definition Groups :: "Storage \<Rightarrow> error + Group list" where
  "Groups st = Groups_loop st (groups st)"

definition store :: "Storage \<Rightarrow> ScopeIDer option \<Rightarrow> error + TableStore" where
  "store st r =
     (case r of
        None \<Rightarrow> Inl ErrStoreNotFound
      | Some c \<Rightarrow>
          (case ScopeCode c of
             Some code \<Rightarrow>
               if code \<noteq> [] then tss_FindByCode (stores st) code
               else tss_FindByID (stores st) (ScopeID c)
           | None \<Rightarrow> tss_FindByID (stores st) (ScopeID c)))"

definition Store :: "Storage \<Rightarrow> ScopeIDer option \<Rightarrow> error + Store" where
  "Store st r =
     (case store st r of
        Inl err \<Rightarrow> Inl (Masked err)
      | Inr s \<Rightarrow>
          (case website st (config_ScopeID (ts_WebsiteID s)) of
             Inl err \<Rightarrow> Inl (Masked err)
           | Inr w \<Rightarrow>
               (case group st (config_ScopeID (ts_GroupID s)) of
                  Inl err \<Rightarrow> Inl (Masked err)
                | Inr g \<Rightarrow>
                    (let ns = NewStore s w g
                     in (case SetGroupsStores (s_Website ns) (groups st) (stores st) of
                           None \<Rightarrow> Inl IntegrityFault
                         | Some wv \<Rightarrow>
                             Inr (ns\<lparr>s_Website := wv,
                                    s_Group := SetStores (s_Group ns) (stores st) (Some w)\<rparr>))))))"

text \<open>
  The loop of \<open>Stores\<close>: an error that \<open>Store\<close> returns is masked and returned; a
  panic inside \<open>Store\<close> is not a returned error and passes through.
\<close>

fun Stores_loop :: "Storage \<Rightarrow> TableStore list \<Rightarrow> error + Store list" where
  "Stores_loop st [] = Inr []"
| "Stores_loop st (s # ss) =
     (case Store st (config_ScopeID (ts_StoreID s)) of
        Inl err \<Rightarrow> if err = IntegrityFault then Inl IntegrityFault else Inl (Masked err)
      | Inr v \<Rightarrow>
          (case Stores_loop st ss of
             Inl err \<Rightarrow> Inl err
           | Inr rest \<Rightarrow> Inr (v # rest)))"

definition Stores :: "Storage \<Rightarrow> error + Store list" where
  "Stores st = Stores_loop st (stores st)"

fun DefaultStoreView_loop :: "Storage \<Rightarrow> TableWebsite list \<Rightarrow> error + Store" where
  "DefaultStoreView_loop st [] = Inl ErrStoreNotFound"
| "DefaultStoreView_loop st (w # ws) =
     (if Bool (tw_IsDefault w) \<and> Valid (tw_IsDefault w) then
        (case group st (config_ScopeID (tw_DefaultGroupID w)) of
           Inl err \<Rightarrow> Inl err
         | Inr g \<Rightarrow> Store st (config_ScopeID (tg_DefaultStoreID g)))
      else DefaultStoreView_loop st ws)"

definition DefaultStoreView :: "Storage \<Rightarrow> error + Store" where
  "DefaultStoreView st = DefaultStoreView_loop st (websites st)"

section \<open>Reload\<close>

text \<open>
  Modelled from the spec: the \<open>Load\<close> methods of the three table types and the data
  source session are not part of the sources at hand. The data source answers each of
  the three select queries with rows or with an error; a \<open>Load\<close> that succeeds stores
  the rows in the table it is called on, a \<open>Load\<close> that fails leaves that table as it
  is and reports the error.
\<close>

record DataSource =
  select_websites :: "error + TableWebsite list"
  select_groups :: "error + TableGroup list"
  select_stores :: "error + TableStore list"

datatype table = TWebsites | TGroups | TStores

fun clear_table :: "table \<Rightarrow> Storage \<Rightarrow> Storage" where
  "clear_table TWebsites st = st\<lparr>websites := []\<rparr>"
| "clear_table TGroups st = st\<lparr>groups := []\<rparr>"
| "clear_table TStores st = st\<lparr>stores := []\<rparr>"

text \<open>
  Modelled from the spec: the \<open>Load\<close> method of a table, missing from the sources;
  the rows of the query replace the table, an error leaves it.
\<close>

fun Load :: "DataSource \<Rightarrow> table \<Rightarrow> Storage \<Rightarrow> Storage \<times> error option" where
  "Load ds TWebsites st =
     (case select_websites ds of
        Inl err \<Rightarrow> (st, Some err) | Inr rows \<Rightarrow> (st\<lparr>websites := rows\<rparr>, None))"
| "Load ds TGroups st =
     (case select_groups ds of
        Inl err \<Rightarrow> (st, Some err) | Inr rows \<Rightarrow> (st\<lparr>groups := rows\<rparr>, None))"
| "Load ds TStores st =
     (case select_stores ds of
        Inl err \<Rightarrow> (st, Some err) | Inr rows \<Rightarrow> (st\<lparr>stores := rows\<rparr>, None))"

text \<open>
  \<open>ReInit\<close> starts one goroutine per table and then receives from the unbuffered channel
  \<open>errc\<close> up to three times. Each goroutine runs three statements in turn: it clears its
  table, it calls \<open>Load\<close>, it sends the masked result on \<open>errc\<close>. The caller's loop
  returns at the first non-nil error it receives, after clearing all three tables; the
  deferred \<open>close(errc)\<close> runs at that return. What Go leaves open is the order in
  which the goroutines' statements and the caller's receives happen, so the model takes
  that order as a list of steps. A send completes only together with a receive of the
  caller; a send on the closed channel panics. \<open>ReInit\<close> takes the write lock of the
  mutex on entry and its deferred \<open>Unlock\<close> releases it at the return: \<open>mu_locked\<close>.
  No other method of the storage takes that mutex and the goroutines do not, so the
  lock does not constrain the order of these steps, and a read of the storage (any of
  the lookups above, which are functions of the three tables alone) can happen in any
  state of a reload.
\<close>

datatype goroutine =
    Spawned
  | Cleared
  | Sending "error option"
  | Finished
  | Panicked

datatype caller = Receiving nat | Returned "error option"

record ReInit_state =
  storage :: Storage
  goroutines :: "table \<Rightarrow> goroutine"
  caller :: caller
  mu_locked :: bool

datatype step = Clear table | DoLoad table | Send table

definition ReInit_start :: "Storage \<Rightarrow> ReInit_state" where
  "ReInit_start st =
     \<lparr>storage = st, goroutines = (\<lambda>t. Spawned), caller = Receiving 0, mu_locked = True\<rparr>"

fun ReInit_step :: "DataSource \<Rightarrow> step \<Rightarrow> ReInit_state \<Rightarrow> ReInit_state option" where
  "ReInit_step ds (Clear t) s =
     (if goroutines s t = Spawned
      then Some (s\<lparr>storage := clear_table t (storage s),
                   goroutines := (goroutines s)(t := Cleared)\<rparr>)
      else None)"
| "ReInit_step ds (DoLoad t) s =
     (if goroutines s t = Cleared
      then (case Load ds t (storage s) of
              (st', err) \<Rightarrow>
                Some (s\<lparr>storage := st',
                        goroutines := (goroutines s)(t := Sending (errgo_Mask err))\<rparr>))
      else None)"
| "ReInit_step ds (Send t) s =
     (case goroutines s t of
        Sending v \<Rightarrow>
          (case caller s of
             Receiving i \<Rightarrow>
               (case v of
                  Some err \<Rightarrow>
                    Some (s\<lparr>storage := \<lparr>websites = [], groups = [], stores = []\<rparr>,
                            goroutines := (goroutines s)(t := Finished),
                            caller := Returned (Some err),
                            mu_locked := False\<rparr>)
                | None \<Rightarrow>
                    Some (s\<lparr>goroutines := (goroutines s)(t := Finished),
                            caller := (if i + 1 < 3 then Receiving (i + 1) else Returned None),
                            mu_locked := (i + 1 < 3)\<rparr>))
           | Returned r \<Rightarrow> Some (s\<lparr>goroutines := (goroutines s)(t := Panicked)\<rparr>))
      | _ \<Rightarrow> None)"

fun ReInit_run :: "DataSource \<Rightarrow> step list \<Rightarrow> ReInit_state \<Rightarrow> ReInit_state option" where
  "ReInit_run ds [] s = Some s"
| "ReInit_run ds (e # es) s =
     (case ReInit_step ds e s of None \<Rightarrow> None | Some s' \<Rightarrow> ReInit_run ds es s')"







section \<open>Configuration resolver\<close>

text \<open>
  Modelled from the spec: the configuration manager (\<open>NewManager\<close>, \<open>ApplyDefaults\<close>,
  \<open>GetString\<close>, the override table) is not part of the sources at hand; only its test
  is. A scope path is the text \<open>section/group/field\<close>. Overrides are keyed by
  (scope kind, scope id, path); the Field Definition catalog maps a path to its default
  value. A scope context is global, a website, or a store together with the website
  enclosing it. Resolution checks, in order: the override recorded for the exact scope;
  for a store, the override recorded for the enclosing website; the catalog default;
  otherwise it signals not-found. Values are not inspected by resolution.
\<close>

type_synonym path = string

datatype scope_kind = KGlobal | KWebsite | KStore

datatype scope = Global | WebsiteScope int64 | StoreScope int64 int64

datatype cfg_error = NotFound | TypeMismatch

text \<open>
  Modelled from the spec: the key under which an override of the exact scope is recorded; the
  global scope has ID 0.
\<close>

fun scope_key :: "scope \<Rightarrow> path \<Rightarrow> scope_kind \<times> int64 \<times> path" where
  "scope_key Global p = (KGlobal, 0, p)"
| "scope_key (WebsiteScope w) p = (KWebsite, w, p)"
| "scope_key (StoreScope s w) p = (KStore, s, p)"

text \<open>
  Modelled from the spec: the Field Definition default of a path, not-found when none is
  defined.
\<close>

definition from_catalog :: "(path \<rightharpoonup> 'v) \<Rightarrow> path \<Rightarrow> cfg_error + 'v" where
  "from_catalog catalog p = (case catalog p of None \<Rightarrow> Inl NotFound | Some d \<Rightarrow> Inr d)"

text \<open>
  Modelled from the spec: resolution of a path at a scope, missing from the sources; exact
  scope, enclosing website of a store, catalog default, not-found.
\<close>

fun resolve ::
  "(scope_kind \<times> int64 \<times> path \<rightharpoonup> 'v) \<Rightarrow> (path \<rightharpoonup> 'v) \<Rightarrow> path \<Rightarrow> scope \<Rightarrow> cfg_error + 'v" where
  "resolve overrides catalog p sc =
     (case overrides (scope_key sc p) of
        Some v \<Rightarrow> Inr v
      | None \<Rightarrow>
          (case sc of
             StoreScope s w \<Rightarrow>
               (case overrides (KWebsite, w, p) of
                  Some v \<Rightarrow> Inr v
                | None \<Rightarrow> from_catalog catalog p)
           | _ \<Rightarrow> from_catalog catalog p))"

section \<open>Example data\<close>

text \<open>
  The example hierarchy: website 1 (code \<open>eu\<close>, default, default group 10), group 10
  (website 1, default store 100), store 100 (code \<open>eu_en\<close>, group 10).
\<close>

definition ex_website :: TableWebsite where
  "ex_website = \<lparr>tw_WebsiteID = 1, tw_Code = ''eu'', tw_DefaultGroupID = 10,
                  tw_IsDefault = \<lparr>Bool = True, Valid = True\<rparr>\<rparr>"

definition ex_group :: TableGroup where
  "ex_group = \<lparr>tg_GroupID = 10, tg_WebsiteID = 1, tg_DefaultStoreID = 100\<rparr>"

definition ex_store :: TableStore where
  "ex_store = \<lparr>ts_StoreID = 100, ts_Code = ''eu_en'', ts_WebsiteID = 1, ts_GroupID = 10,
                ts_IsActive = True\<rparr>"

definition ex_storage :: Storage where
  "ex_storage = \<lparr>websites = [ex_website], groups = [ex_group], stores = [ex_store]\<rparr>"

definition ex_group2 :: TableGroup where
  "ex_group2 = \<lparr>tg_GroupID = 11, tg_WebsiteID = 1, tg_DefaultStoreID = 100\<rparr>"

definition ex_orphan :: TableGroup where
  "ex_orphan = \<lparr>tg_GroupID = 12, tg_WebsiteID = 2, tg_DefaultStoreID = 100\<rparr>"

definition ex_store2 :: TableStore where
  "ex_store2 = \<lparr>ts_StoreID = 100, ts_Code = ''eu_de'', ts_WebsiteID = 1, ts_GroupID = 10,
                 ts_IsActive = True\<rparr>"

text \<open>
  A data source whose store query fails, and two orders of the steps of a reload: one in
  which every goroutine has loaded before the caller receives, one in which the caller
  receives the failure before the websites goroutine has run.
\<close>

definition ex_source :: DataSource where
  "ex_source = \<lparr>select_websites = Inr [ex_website], select_groups = Inr [ex_group],
                 select_stores = Inl (DataSourceError ''connection lost'')\<rparr>"

definition joined_schedule :: "step list" where
  "joined_schedule =
     [Clear TWebsites, DoLoad TWebsites, Clear TGroups, DoLoad TGroups,
      Clear TStores, DoLoad TStores, Send TWebsites, Send TGroups, Send TStores]"

definition early_return_schedule :: "step list" where
  "early_return_schedule =
     [Clear TStores, DoLoad TStores, Send TStores, Clear TWebsites, DoLoad TWebsites]"

definition ex_catalog :: "path \<rightharpoonup> string" where
  "ex_catalog = [''contact/email/recipient_email'' \<mapsto> ''hello@example.com'']"


text \<open>
  A second website with its group and its store, and the storage that holds both
  hierarchies: every table has two rows.
\<close>

definition ex_website2 :: TableWebsite where
  "ex_website2 = \<lparr>tw_WebsiteID = 2, tw_Code = ''us'', tw_DefaultGroupID = 20,
                   tw_IsDefault = \<lparr>Bool = False, Valid = True\<rparr>\<rparr>"

definition ex_group20 :: TableGroup where
  "ex_group20 = \<lparr>tg_GroupID = 20, tg_WebsiteID = 2, tg_DefaultStoreID = 200\<rparr>"

definition ex_store200 :: TableStore where
  "ex_store200 = \<lparr>ts_StoreID = 200, ts_Code = ''us_en'', ts_WebsiteID = 2, ts_GroupID = 20,
                   ts_IsActive = True\<rparr>"

definition ex_storage2 :: Storage where
  "ex_storage2 = \<lparr>websites = [ex_website, ex_website2], groups = [ex_group, ex_group20],
                   stores = [ex_store, ex_store200]\<rparr>"




lemmas ex_defs = ex_storage_def ex_website_def ex_group_def ex_store_def

lemmas ex2_defs = ex_storage2_def ex_website2_def ex_group20_def ex_store200_def

section \<open>Lookups: hits and misses\<close>

lemma tws_FindByID_miss:
  "(\<forall>w\<in>set tws. tw_WebsiteID w \<noteq> n) \<Longrightarrow> tws_FindByID tws n = Inl ErrWebsiteNotFound"
  by (simp add: tws_FindByID_def find_None_iff split: option.splits)

lemma tws_FindByCode_miss:
  "(\<forall>w\<in>set tws. tw_Code w \<noteq> c) \<Longrightarrow> tws_FindByCode tws c = Inl ErrWebsiteNotFound"
  by (simp add: tws_FindByCode_def find_None_iff split: option.splits)

lemma tgs_FindByID_miss:
  "(\<forall>g\<in>set tgs. tg_GroupID g \<noteq> n) \<Longrightarrow> tgs_FindByID tgs n = Inl ErrGroupNotFound"
  by (simp add: tgs_FindByID_def find_None_iff split: option.splits)

lemma tss_FindByID_miss:
  "(\<forall>s\<in>set tss. ts_StoreID s \<noteq> n) \<Longrightarrow> tss_FindByID tss n = Inl ErrStoreNotFound"
  by (simp add: tss_FindByID_def find_None_iff split: option.splits)

lemma tss_FindByCode_miss:
  "(\<forall>s\<in>set tss. ts_Code s \<noteq> c) \<Longrightarrow> tss_FindByCode tss c = Inl ErrStoreNotFound"
  by (simp add: tss_FindByCode_def find_None_iff split: option.splits)

lemma tws_FindByID_hit:
  "tws_FindByID tws n = Inr w \<Longrightarrow> w \<in> set tws \<and> tw_WebsiteID w = n"
  by (auto simp: tws_FindByID_def find_Some_iff split: option.splits)

lemma website_ScopeID: "website st (config_ScopeID n) = tws_FindByID (websites st) n"
  by (simp add: website_def config_ScopeID_def)

lemma group_ScopeID: "group st (config_ScopeID n) = tgs_FindByID (groups st) n"
  by (simp add: group_def config_ScopeID_def)

lemma store_ScopeID: "store st (config_ScopeID n) = tss_FindByID (stores st) n"
  by (simp add: store_def config_ScopeID_def)

section \<open>Selectors\<close>

text \<open>
  C8 (as stated, for \<open>Store\<close>). \<open>Store\<close> masks every error of its lookups before it
  returns it. Called with an absent selector, or with a selector that matches no store
  row, it does not fail with the error \<open>ErrStoreNotFound\<close> itself, as \<open>Website\<close> does
  with \<open>ErrWebsiteNotFound\<close>, but with the wrapper \<open>errgo.Mask\<close> has put around it.
\<close>

theorem Store_miss_masked_counterexample:
  "Store ex_storage None \<noteq> Inl ErrStoreNotFound \<and>
   Store ex_storage None = Inl (Masked ErrStoreNotFound) \<and>
   Store ex_storage (Some (Selector 7 (Some ''us''))) \<noteq> Inl ErrStoreNotFound \<and>
   Store ex_storage (Some (Selector 7 (Some ''us''))) = Inl (Masked ErrStoreNotFound)"
  by (simp add: Store_def store_def tss_FindByCode_def ex_defs)

text \<open>
  C8 (amended). \<open>Website\<close> called with an absent (nil) selector fails with
  \<open>ErrWebsiteNotFound\<close>, and so does a call whose selector's ID and code both match no
  website row. \<open>Store\<close> fails in the same two cases with \<open>ErrStoreNotFound\<close> wrapped by
  \<open>errgo.Mask\<close>; no call of \<open>Store\<close> fails with the unwrapped \<open>ErrStoreNotFound\<close>.
\<close>

theorem lookup_miss_errors:
  "Website st None = Inl ErrWebsiteNotFound \<and>
   ((\<forall>w\<in>set (websites st). tw_WebsiteID w \<noteq> ScopeID c \<and> Some (tw_Code w) \<noteq> ScopeCode c)
      \<longrightarrow> Website st (Some c) = Inl ErrWebsiteNotFound) \<and>
   Store st None = Inl (Masked ErrStoreNotFound) \<and>
   ((\<forall>s\<in>set (stores st). ts_StoreID s \<noteq> ScopeID c \<and> Some (ts_Code s) \<noteq> ScopeCode c)
      \<longrightarrow> Store st (Some c) = Inl (Masked ErrStoreNotFound)) \<and>
   Store st r \<noteq> Inl ErrStoreNotFound"
proof (intro conjI impI)
  show "Website st None = Inl ErrWebsiteNotFound"
    by (simp add: Website_def website_def)
  show "Store st None = Inl (Masked ErrStoreNotFound)"
    by (simp add: Store_def store_def)
  show "Store st r \<noteq> Inl ErrStoreNotFound"
    by (simp add: Store_def Let_def split: sum.splits option.splits)
next
  assume h: "\<forall>w\<in>set (websites st). tw_WebsiteID w \<noteq> ScopeID c \<and> Some (tw_Code w) \<noteq> ScopeCode c"
  have "website st (Some c) = Inl ErrWebsiteNotFound"
  proof (cases "ScopeCode c")
    case None
    with h show ?thesis by (simp add: website_def tws_FindByID_miss)
  next
    case (Some code)
    with h have "\<forall>w\<in>set (websites st). tw_Code w \<noteq> code" by auto
    with h Some show ?thesis
      by (simp add: website_def tws_FindByID_miss tws_FindByCode_miss)
  qed
  then show "Website st (Some c) = Inl ErrWebsiteNotFound"
    by (simp add: Website_def)
next
  assume h: "\<forall>s\<in>set (stores st). ts_StoreID s \<noteq> ScopeID c \<and> Some (ts_Code s) \<noteq> ScopeCode c"
  have "store st (Some c) = Inl ErrStoreNotFound"
  proof (cases "ScopeCode c")
    case None
    with h show ?thesis by (simp add: store_def tss_FindByID_miss)
  next
    case (Some code)
    with h have "\<forall>s\<in>set (stores st). ts_Code s \<noteq> code" by auto
    with h Some show ?thesis
      by (simp add: store_def tss_FindByID_miss tss_FindByCode_miss)
  qed
  then show "Store st (Some c) = Inl (Masked ErrStoreNotFound)"
    by (simp add: Store_def)
qed

theorem lookup_miss_errors_witness:
  "Website ex_storage (Some (Selector 7 (Some ''us''))) = Inl ErrWebsiteNotFound \<and>
   Store ex_storage (Some (Selector 7 (Some ''us''))) = Inl (Masked ErrStoreNotFound)"
proof -
  let ?c = "Selector 7 (Some ''us'')"
  have hw: "\<forall>w\<in>set (websites ex_storage).
              tw_WebsiteID w \<noteq> ScopeID ?c \<and> Some (tw_Code w) \<noteq> ScopeCode ?c"
    by (simp add: ex_defs)
  have hs: "\<forall>s\<in>set (stores ex_storage).
              ts_StoreID s \<noteq> ScopeID ?c \<and> Some (ts_Code s) \<noteq> ScopeCode ?c"
    by (simp add: ex_defs)
  from lookup_miss_errors [of ex_storage ?c] hw hs show ?thesis
    by blast
qed

text \<open>
  C3 (as stated, for \<open>Group\<close>). Were \<open>Group\<close> resolved by the code, two selectors with
  the same non-empty code and different IDs would give the same group. With groups 10
  and 11 in the table they do not: \<open>Group\<close> reads the ID only.
\<close>

theorem Group_by_code_counterexample:
  "Group (ex_storage\<lparr>groups := [ex_group, ex_group2]\<rparr>) (Some (Selector 10 (Some ''eu'')))
     \<noteq> Group (ex_storage\<lparr>groups := [ex_group, ex_group2]\<rparr>) (Some (Selector 11 (Some ''eu'')))"
  by (simp add: Group_def group_def website_ScopeID tgs_FindByID_def tws_FindByID_def
      ex_defs ex_group2_def SetStores_def NewGroup_def)

text \<open>
  C3 (amended). For a selector that supplies an ID and a non-empty code, \<open>Website\<close> and
  \<open>Store\<close> resolve the entity by the code: the row is the one \<open>FindByCode\<close> gives and
  the result does not depend on the ID. \<open>Group\<close> resolves by the ID and ignores the
  code.
\<close>

theorem code_precedence:
  assumes "code \<noteq> []"
  shows "website st (Some (Selector i (Some code))) = tws_FindByCode (websites st) code \<and>
         Website st (Some (Selector i (Some code))) = Website st (Some (Selector j (Some code))) \<and>
         store st (Some (Selector i (Some code))) = tss_FindByCode (stores st) code \<and>
         Store st (Some (Selector i (Some code))) = Store st (Some (Selector j (Some code))) \<and>
         group st (Some (Selector i (Some code))) = tgs_FindByID (groups st) i \<and>
         Group st (Some (Selector i (Some code))) = Group st (config_ScopeID i)"
  using assms
  by (simp add: website_def Website_def store_def Store_def group_def Group_def config_ScopeID_def)

theorem code_precedence_witness:
  "website ex_storage (Some (Selector 7 (Some ''eu''))) = Inr ex_website \<and>
   store ex_storage (Some (Selector 7 (Some ''eu_en''))) = Inr ex_store \<and>
   group ex_storage (Some (Selector 10 (Some ''eu''))) = Inr ex_group"
proof -
  have a: "''eu'' \<noteq> []" and b: "''eu_en'' \<noteq> []" by simp_all
  from code_precedence [OF a, of ex_storage 7] code_precedence [OF b, of ex_storage 7]
    code_precedence [OF a, of ex_storage 10]
  show ?thesis
    by (simp add: tws_FindByCode_def tss_FindByCode_def tgs_FindByID_def ex_defs)
qed

section \<open>The default store view\<close>

lemma DefaultStoreView_loop_none:
  "filter (\<lambda>w. Bool (tw_IsDefault w) \<and> Valid (tw_IsDefault w)) ws = []
   \<Longrightarrow> DefaultStoreView_loop st ws = Inl ErrStoreNotFound"
  by (induction ws) (auto split: if_splits)

lemma DefaultStoreView_loop_first:
  "filter (\<lambda>w. Bool (tw_IsDefault w) \<and> Valid (tw_IsDefault w)) ws = w # rest
   \<Longrightarrow> DefaultStoreView_loop st ws =
       (case group st (config_ScopeID (tw_DefaultGroupID w)) of
          Inl err \<Rightarrow> Inl err
        | Inr g \<Rightarrow> Store st (config_ScopeID (tg_DefaultStoreID g)))"
  by (induction ws) (auto split: if_splits)

lemma tss_FindByID_hit:
  "tss_FindByID tss n = Inr s \<Longrightarrow> s \<in> set tss \<and> ts_StoreID s = n"
  by (auto simp: tss_FindByID_def find_Some_iff split: option.splits)

lemma tgs_FindByID_hit:
  "tgs_FindByID tgs n = Inr g \<Longrightarrow> g \<in> set tgs \<and> tg_GroupID g = n"
  by (auto simp: tgs_FindByID_def find_Some_iff split: option.splits)

lemma Store_ScopeID_Data:
  "Store st (config_ScopeID n) = Inr v \<Longrightarrow> tss_FindByID (stores st) n = Inr (s_Data v)"
  by (auto simp: Store_def store_ScopeID NewStore_def Let_def split: sum.splits option.splits)

lemma ex_Store: "Store ex_storage (config_ScopeID 100) =
  Inr \<lparr>s_Data = ex_store,
       s_Website = \<lparr>w_Data = ex_website, w_Groups = [ex_group], w_Stores = [ex_store]\<rparr>,
       s_Group = \<lparr>g_Data = ex_group, g_Website = Some ex_website, g_Stores = [ex_store]\<rparr>\<rparr>"
  by (simp add: Store_def store_ScopeID website_ScopeID group_ScopeID tss_FindByID_def
      tws_FindByID_def tgs_FindByID_def NewStore_def NewWebsite_def NewGroup_def
      SetGroupsStores_def SetStores_def ex_defs)

text \<open>
  C4. When exactly one website row has its default flag set, \<open>DefaultStoreView\<close> is the
  lookup of that website's \<open>DefaultGroupID\<close> in the group table followed by \<open>Store\<close> on
  that group's \<open>DefaultStoreID\<close>; when both resolve, the composed Store it returns is
  the one of the store row with that ID. When no website row has its default flag set,
  \<open>DefaultStoreView\<close> fails with \<open>ErrStoreNotFound\<close>.
\<close>

theorem DefaultStoreView_single_default:
  "(filter (\<lambda>w. Bool (tw_IsDefault w) \<and> Valid (tw_IsDefault w)) (websites st) = [w]
      \<longrightarrow> DefaultStoreView st =
            (case tgs_FindByID (groups st) (tw_DefaultGroupID w) of
               Inl err \<Rightarrow> Inl err
             | Inr g \<Rightarrow> Store st (config_ScopeID (tg_DefaultStoreID g)))) \<and>
   (filter (\<lambda>w. Bool (tw_IsDefault w) \<and> Valid (tw_IsDefault w)) (websites st) = [w] \<and>
    tgs_FindByID (groups st) (tw_DefaultGroupID w) = Inr g \<and>
    Store st (config_ScopeID (tg_DefaultStoreID g)) = Inr v
      \<longrightarrow> DefaultStoreView st = Inr v \<and> ts_StoreID (s_Data v) = tg_DefaultStoreID g \<and>
          s_Data v \<in> set (stores st)) \<and>
   (filter (\<lambda>w. Bool (tw_IsDefault w) \<and> Valid (tw_IsDefault w)) (websites st) = []
      \<longrightarrow> DefaultStoreView st = Inl ErrStoreNotFound)"
proof (intro conjI impI)
  assume "filter (\<lambda>w. Bool (tw_IsDefault w) \<and> Valid (tw_IsDefault w)) (websites st) = [w]"
  then show "DefaultStoreView st =
            (case tgs_FindByID (groups st) (tw_DefaultGroupID w) of
               Inl err \<Rightarrow> Inl err
             | Inr g \<Rightarrow> Store st (config_ScopeID (tg_DefaultStoreID g)))"
    by (simp add: DefaultStoreView_def DefaultStoreView_loop_first group_ScopeID)
next
  assume h: "filter (\<lambda>w. Bool (tw_IsDefault w) \<and> Valid (tw_IsDefault w)) (websites st) = [w] \<and>
    tgs_FindByID (groups st) (tw_DefaultGroupID w) = Inr g \<and>
    Store st (config_ScopeID (tg_DefaultStoreID g)) = Inr v"
  then show "DefaultStoreView st = Inr v"
    by (simp add: DefaultStoreView_def DefaultStoreView_loop_first group_ScopeID)
  from h have "tss_FindByID (stores st) (tg_DefaultStoreID g) = Inr (s_Data v)"
    by (simp add: Store_ScopeID_Data)
  then show "ts_StoreID (s_Data v) = tg_DefaultStoreID g" and "s_Data v \<in> set (stores st)"
    by (simp_all add: tss_FindByID_hit)
next
  assume "filter (\<lambda>w. Bool (tw_IsDefault w) \<and> Valid (tw_IsDefault w)) (websites st) = []"
  then show "DefaultStoreView st = Inl ErrStoreNotFound"
    by (simp add: DefaultStoreView_def DefaultStoreView_loop_none)
qed

theorem DefaultStoreView_single_default_witness:
  "ts_Code (s_Data (projr (DefaultStoreView ex_storage))) = ''eu_en'' \<and>
   DefaultStoreView (ex_storage\<lparr>websites := []\<rparr>) = Inl ErrStoreNotFound"
proof -
  let ?v = "\<lparr>s_Data = ex_store,
       s_Website = \<lparr>w_Data = ex_website, w_Groups = [ex_group], w_Stores = [ex_store]\<rparr>,
       s_Group = \<lparr>g_Data = ex_group, g_Website = Some ex_website, g_Stores = [ex_store]\<rparr>\<rparr>"
  have a: "filter (\<lambda>w. Bool (tw_IsDefault w) \<and> Valid (tw_IsDefault w)) (websites ex_storage)
             = [ex_website]"
    by (simp add: ex_defs)
  have b: "tgs_FindByID (groups ex_storage) (tw_DefaultGroupID ex_website) = Inr ex_group"
    by (simp add: tgs_FindByID_def ex_defs)
  have c: "Store ex_storage (config_ScopeID (tg_DefaultStoreID ex_group)) = Inr ?v"
    using ex_Store by (simp add: ex_group_def)
  have d: "filter (\<lambda>w. Bool (tw_IsDefault w) \<and> Valid (tw_IsDefault w))
             (websites (ex_storage\<lparr>websites := []\<rparr>)) = []"
    by simp
  from DefaultStoreView_single_default [of ex_storage ex_website ex_group ?v] a b c
  have "DefaultStoreView ex_storage = Inr ?v" by blast
  moreover from DefaultStoreView_single_default [of "ex_storage\<lparr>websites := []\<rparr>"] d
  have "DefaultStoreView (ex_storage\<lparr>websites := []\<rparr>) = Inl ErrStoreNotFound" by blast
  ultimately show ?thesis by (simp add: ex_store_def)
qed

text \<open>
  C5 (as stated). With the default website present and the group table empty, the
  website's \<open>DefaultGroupID\<close> does not resolve and \<open>DefaultStoreView\<close> hands back the
  error of the group lookup, \<open>ErrGroupNotFound\<close>, not \<open>ErrStoreNotFound\<close>.
\<close>

theorem DefaultStoreView_missing_group_counterexample:
  "DefaultStoreView (ex_storage\<lparr>groups := []\<rparr>) = Inl ErrGroupNotFound \<and>
   Underlying ErrGroupNotFound \<noteq> ErrStoreNotFound"
  by (simp add: DefaultStoreView_def group_ScopeID tgs_FindByID_def ex_defs)

text \<open>
  C5 (amended). Let \<open>w\<close> be the first default-flagged website row. If its
  \<open>DefaultGroupID\<close> matches no group row, \<open>DefaultStoreView\<close> fails with
  \<open>ErrGroupNotFound\<close>. If it resolves to a group whose \<open>DefaultStoreID\<close> matches no
  store row, \<open>DefaultStoreView\<close> fails with \<open>ErrStoreNotFound\<close> wrapped by
  \<open>errgo.Mask\<close>.
\<close>

theorem DefaultStoreView_dangling:
  assumes "filter (\<lambda>w. Bool (tw_IsDefault w) \<and> Valid (tw_IsDefault w)) (websites st) = w # rest"
  shows "((\<forall>g\<in>set (groups st). tg_GroupID g \<noteq> tw_DefaultGroupID w)
            \<longrightarrow> DefaultStoreView st = Inl ErrGroupNotFound) \<and>
         (tgs_FindByID (groups st) (tw_DefaultGroupID w) = Inr g \<and>
          (\<forall>s\<in>set (stores st). ts_StoreID s \<noteq> tg_DefaultStoreID g)
            \<longrightarrow> DefaultStoreView st = Inl (Masked ErrStoreNotFound) \<and>
                Underlying (Masked ErrStoreNotFound) = ErrStoreNotFound)"
proof (intro conjI impI)
  assume "\<forall>g\<in>set (groups st). tg_GroupID g \<noteq> tw_DefaultGroupID w"
  then have "tgs_FindByID (groups st) (tw_DefaultGroupID w) = Inl ErrGroupNotFound"
    by (rule tgs_FindByID_miss)
  with assms show "DefaultStoreView st = Inl ErrGroupNotFound"
    by (simp add: DefaultStoreView_def DefaultStoreView_loop_first group_ScopeID)
next
  assume h: "tgs_FindByID (groups st) (tw_DefaultGroupID w) = Inr g \<and>
          (\<forall>s\<in>set (stores st). ts_StoreID s \<noteq> tg_DefaultStoreID g)"
  then have "tss_FindByID (stores st) (tg_DefaultStoreID g) = Inl ErrStoreNotFound"
    by (simp add: tss_FindByID_miss)
  then have "Store st (config_ScopeID (tg_DefaultStoreID g)) = Inl (Masked ErrStoreNotFound)"
    by (simp add: Store_def store_ScopeID)
  with assms h show "DefaultStoreView st = Inl (Masked ErrStoreNotFound)"
    by (simp add: DefaultStoreView_def DefaultStoreView_loop_first group_ScopeID)
  show "Underlying (Masked ErrStoreNotFound) = ErrStoreNotFound" by simp
qed

theorem DefaultStoreView_dangling_witness:
  "DefaultStoreView (ex_storage\<lparr>groups := []\<rparr>) = Inl ErrGroupNotFound \<and>
   DefaultStoreView (ex_storage\<lparr>stores := []\<rparr>) = Inl (Masked ErrStoreNotFound)"
proof -
  have a: "filter (\<lambda>w. Bool (tw_IsDefault w) \<and> Valid (tw_IsDefault w))
             (websites (ex_storage\<lparr>groups := []\<rparr>)) = ex_website # []"
    by (simp add: ex_defs)
  have b: "filter (\<lambda>w. Bool (tw_IsDefault w) \<and> Valid (tw_IsDefault w))
             (websites (ex_storage\<lparr>stores := []\<rparr>)) = ex_website # []"
    by (simp add: ex_defs)
  have c: "\<forall>g\<in>set (groups (ex_storage\<lparr>groups := []\<rparr>)). tg_GroupID g \<noteq> tw_DefaultGroupID ex_website"
    by simp
  have d: "tgs_FindByID (groups (ex_storage\<lparr>stores := []\<rparr>)) (tw_DefaultGroupID ex_website) = Inr ex_group \<and>
          (\<forall>s\<in>set (stores (ex_storage\<lparr>stores := []\<rparr>)). ts_StoreID s \<noteq> tg_DefaultStoreID ex_group)"
    by (simp add: tgs_FindByID_def ex_defs)
  from DefaultStoreView_dangling [OF a] c
  have "DefaultStoreView (ex_storage\<lparr>groups := []\<rparr>) = Inl ErrGroupNotFound" by blast
  moreover from DefaultStoreView_dangling [OF b, of ex_group] d
  have "DefaultStoreView (ex_storage\<lparr>stores := []\<rparr>) = Inl (Masked ErrStoreNotFound)" by blast
  ultimately show ?thesis by simp
qed

section \<open>Composing groups\<close>

lemma tws_FindByID_err: "tws_FindByID tws n = Inl e \<Longrightarrow> e = ErrWebsiteNotFound"
  by (auto simp: tws_FindByID_def split: option.splits)

lemma Groups_loop_dangling:
  "g \<in> set gs \<Longrightarrow> \<forall>w\<in>set (websites st). tw_WebsiteID w \<noteq> tg_WebsiteID g
   \<Longrightarrow> Groups_loop st gs = Inl (Masked ErrWebsiteNotFound)"
proof (induction gs)
  case Nil
  then show ?case by simp
next
  case (Cons a gs)
  show ?case
  proof (cases "tws_FindByID (websites st) (tg_WebsiteID a)")
    case (Inl e)
    then show ?thesis by (simp add: website_ScopeID tws_FindByID_err)
  next
    case (Inr w)
    with Cons.prems have "a \<noteq> g"
      by (auto dest: tws_FindByID_hit)
    with Cons have "Groups_loop st gs = Inl (Masked ErrWebsiteNotFound)" by simp
    with Inr show ?thesis by (simp add: website_ScopeID)
  qed
qed

lemma Groups_loop_composed:
  "Groups_loop st gs = Inr vs \<Longrightarrow>
     map g_Data vs = gs \<and>
     (\<forall>v\<in>set vs. \<exists>w. g_Website v = Some w \<and> w \<in> set (websites st) \<and>
                      tw_WebsiteID w = tg_WebsiteID (g_Data v))"
proof (induction gs arbitrary: vs)
  case Nil
  then show ?case by simp
next
  case (Cons a gs)
  then show ?case
    by (auto simp: website_ScopeID SetStores_def NewGroup_def
        split: sum.splits dest!: tws_FindByID_hit)
qed

text \<open>
  C6. A group row whose \<open>WebsiteID\<close> matches no website row makes \<open>Group\<close> (when the
  selector finds that row) fail with \<open>ErrWebsiteNotFound\<close>, and makes \<open>Groups\<close> fail
  with that error wrapped by \<open>errgo.Mask\<close> whenever the row is in the group table.
  Every Group that \<open>Group\<close> or \<open>Groups\<close> does return has its Website attached, and it
  is a row of the website table with the group's \<open>WebsiteID\<close>.
\<close>

theorem dangling_website_aborts:
  "(group st r = Inr g \<and> (\<forall>w\<in>set (websites st). tw_WebsiteID w \<noteq> tg_WebsiteID g)
      \<longrightarrow> Group st r = Inl ErrWebsiteNotFound) \<and>
   (g \<in> set (groups st) \<and> (\<forall>w\<in>set (websites st). tw_WebsiteID w \<noteq> tg_WebsiteID g)
      \<longrightarrow> Groups st = Inl (Masked ErrWebsiteNotFound)) \<and>
   (Group st r = Inr v
      \<longrightarrow> (\<exists>w. g_Website v = Some w \<and> w \<in> set (websites st) \<and>
               tw_WebsiteID w = tg_WebsiteID (g_Data v))) \<and>
   (Groups st = Inr vs
      \<longrightarrow> (\<forall>v\<in>set vs. \<exists>w. g_Website v = Some w \<and> w \<in> set (websites st) \<and>
                          tw_WebsiteID w = tg_WebsiteID (g_Data v)))"
proof (intro conjI impI)
  assume "group st r = Inr g \<and> (\<forall>w\<in>set (websites st). tw_WebsiteID w \<noteq> tg_WebsiteID g)"
  then show "Group st r = Inl ErrWebsiteNotFound"
    by (simp add: Group_def website_ScopeID tws_FindByID_miss)
next
  assume "g \<in> set (groups st) \<and> (\<forall>w\<in>set (websites st). tw_WebsiteID w \<noteq> tg_WebsiteID g)"
  then show "Groups st = Inl (Masked ErrWebsiteNotFound)"
    by (auto simp: Groups_def intro: Groups_loop_dangling)
next
  assume "Group st r = Inr v"
  then show "\<exists>w. g_Website v = Some w \<and> w \<in> set (websites st) \<and>
               tw_WebsiteID w = tg_WebsiteID (g_Data v)"
    by (auto simp: Group_def website_ScopeID SetStores_def NewGroup_def
        split: sum.splits dest!: tws_FindByID_hit)
next
  assume "Groups st = Inr vs"
  then show "\<forall>v\<in>set vs. \<exists>w. g_Website v = Some w \<and> w \<in> set (websites st) \<and>
                          tw_WebsiteID w = tg_WebsiteID (g_Data v)"
    by (simp add: Groups_def Groups_loop_composed)
qed


lemma ex_Group: "Group ex_storage (config_ScopeID 10) =
    Inr \<lparr>g_Data = ex_group, g_Website = Some ex_website, g_Stores = [ex_store]\<rparr>"
  by (simp add: Group_def group_ScopeID website_ScopeID tgs_FindByID_def tws_FindByID_def
      NewGroup_def SetStores_def ex_defs)

lemma ex_Groups: "Groups ex_storage =
    Inr [\<lparr>g_Data = ex_group, g_Website = Some ex_website, g_Stores = [ex_store]\<rparr>]"
  by (simp add: Groups_def website_ScopeID tws_FindByID_def
      NewGroup_def SetStores_def ex_defs)

theorem dangling_website_aborts_witness:
  "Group (ex_storage\<lparr>groups := [ex_group, ex_orphan]\<rparr>) (config_ScopeID 12) = Inl ErrWebsiteNotFound \<and>
   Groups (ex_storage\<lparr>groups := [ex_group, ex_orphan]\<rparr>) = Inl (Masked ErrWebsiteNotFound) \<and>
   g_Website (projr (Group ex_storage (config_ScopeID 10))) \<noteq> None \<and>
   list_all (\<lambda>v. g_Website v \<noteq> None) (projr (Groups ex_storage))"
proof -
  let ?st = "ex_storage\<lparr>groups := [ex_group, ex_orphan]\<rparr>"
  let ?v = "\<lparr>g_Data = ex_group, g_Website = Some ex_website, g_Stores = [ex_store]\<rparr>"
  have a: "group ?st (config_ScopeID 12) = Inr ex_orphan \<and>
           (\<forall>w\<in>set (websites ?st). tw_WebsiteID w \<noteq> tg_WebsiteID ex_orphan)"
    by (simp add: group_ScopeID tgs_FindByID_def ex_defs ex_orphan_def)
  have b: "ex_orphan \<in> set (groups ?st) \<and>
           (\<forall>w\<in>set (websites ?st). tw_WebsiteID w \<noteq> tg_WebsiteID ex_orphan)"
    by (simp add: ex_defs ex_orphan_def)
  from dangling_website_aborts [of ?st "config_ScopeID 12" ex_orphan] a b
  have 1: "Group ?st (config_ScopeID 12) = Inl ErrWebsiteNotFound"
    and 2: "Groups ?st = Inl (Masked ErrWebsiteNotFound)"
    by blast+
  from dangling_website_aborts [of ex_storage "config_ScopeID 10" _ ?v "[?v]"] ex_Group ex_Groups
  have 3: "\<exists>w. g_Website ?v = Some w \<and> w \<in> set (websites ex_storage) \<and>
               tw_WebsiteID w = tg_WebsiteID (g_Data ?v)"
    and 4: "\<forall>v\<in>set [?v]. \<exists>w. g_Website v = Some w \<and> w \<in> set (websites ex_storage) \<and>
                          tw_WebsiteID w = tg_WebsiteID (g_Data v)"
    by blast+
  from 1 2 3 4 show ?thesis
    by (simp add: ex_Group ex_Groups)
qed

section \<open>Composing websites\<close>


lemma SetGroupsStores_Some:
  "SetGroupsStores (NewWebsite w) tgs tss = Some v \<Longrightarrow>
     v = \<lparr>w_Data = w,
          w_Groups = filter (\<lambda>g. tg_WebsiteID g = tw_WebsiteID w) tgs,
          w_Stores = filter (\<lambda>s. ts_GroupID s \<in>
                        set (map tg_GroupID (filter (\<lambda>g. tg_WebsiteID g = tw_WebsiteID w) tgs))) tss\<rparr>"
  by (auto simp: SetGroupsStores_def NewWebsite_def Let_def split: if_splits)



lemma Websites_loop_Inr:
  "Websites_loop st ws = Inr vs \<Longrightarrow>
     vs = map (\<lambda>w. \<lparr>w_Data = w,
          w_Groups = filter (\<lambda>g. tg_WebsiteID g = tw_WebsiteID w) (groups st),
          w_Stores = filter (\<lambda>s. ts_GroupID s \<in>
                        set (map tg_GroupID (filter (\<lambda>g. tg_WebsiteID g = tw_WebsiteID w) (groups st))))
                      (stores st)\<rparr>) ws"
proof (induction ws arbitrary: vs)
  case Nil
  then show ?case by simp
next
  case (Cons a ws)
  then show ?case
    by (auto split: option.splits sum.splits dest: SetGroupsStores_Some)
qed




section \<open>Bulk operations\<close>

lemma Groups_loop_views:
  "Groups_loop st gs = Inr vs \<Longrightarrow>
     vs = map (\<lambda>g. \<lparr>g_Data = g,
                      g_Website = (case tws_FindByID (websites st) (tg_WebsiteID g) of
                                     Inl err \<Rightarrow> None | Inr w \<Rightarrow> Some w),
                      g_Stores = filter (\<lambda>s. ts_GroupID s = tg_GroupID g) (stores st)\<rparr>) gs"
proof (induction gs arbitrary: vs)
  case Nil
  then show ?case by simp
next
  case (Cons a gs)
  then show ?case
    by (auto simp: website_ScopeID SetStores_def NewGroup_def split: sum.splits)
qed

lemma Stores_loop_lookup:
  "Stores_loop st ss = Inr vs \<Longrightarrow>
     map (\<lambda>v. Inr v) vs = map (\<lambda>s. Store st (config_ScopeID (ts_StoreID s))) ss"
proof (induction ss arbitrary: vs)
  case Nil
  then show ?case by simp
next
  case (Cons a ss)
  then show ?case by (auto split: sum.splits if_splits)
qed

lemma find_distinct_key:
  "distinct (map f xs) \<Longrightarrow> x \<in> set xs \<Longrightarrow> find (\<lambda>y. f y = f x) xs = Some x"
  by (induction xs) (auto simp: image_iff)

lemma Stores_loop_rows:
  assumes "Stores_loop st ss = Inr vs" "distinct (map ts_StoreID (stores st))"
    "set ss \<subseteq> set (stores st)"
  shows "map s_Data vs = ss"
  using assms
proof (induction ss arbitrary: vs)
  case Nil
  then show ?case by simp
next
  case (Cons a ss)
  from Cons.prems obtain v rest where
    v: "Store st (config_ScopeID (ts_StoreID a)) = Inr v" and
    rest: "Stores_loop st ss = Inr rest" and vs: "vs = v # rest"
    by (auto split: sum.splits if_splits)
  from v have "tss_FindByID (stores st) (ts_StoreID a) = Inr (s_Data v)"
    by (rule Store_ScopeID_Data)
  moreover from Cons.prems have "find (\<lambda>y. ts_StoreID y = ts_StoreID a) (stores st) = Some a"
    by (simp add: find_distinct_key)
  ultimately have "s_Data v = a"
    by (simp add: tss_FindByID_def)
  moreover from Cons rest have "map s_Data rest = ss" by simp
  ultimately show ?case using vs by simp
qed

text \<open>
  C10 (as stated, for \<open>Stores\<close>). \<open>Stores\<close> composes entry \<open>i\<close> by looking the
  \<open>StoreID\<close> of row \<open>i\<close> up again. With two different rows that share \<open>StoreID\<close> 100
  both entries are views of the first row: the second row has no view.
\<close>

theorem Stores_duplicate_id_counterexample:
  "map_sum id (map s_Data) (Stores (ex_storage\<lparr>stores := [ex_store, ex_store2]\<rparr>))
     = Inr [ex_store, ex_store] \<and>
   stores (ex_storage\<lparr>stores := [ex_store, ex_store2]\<rparr>) = [ex_store, ex_store2] \<and>
   ex_store2 \<noteq> ex_store"
  by (simp add: Stores_def Store_def store_ScopeID website_ScopeID group_ScopeID
      tss_FindByID_def tws_FindByID_def tgs_FindByID_def NewStore_def NewWebsite_def
      SetGroupsStores_def ex_defs ex_store2_def)

text \<open>
  C10 (amended). \<open>Websites\<close>, when no composition panics, returns exactly one composed
  Website per website row, in table order: the row with the groups of that website and
  the stores of those groups attached. \<open>Groups\<close>, when it succeeds, returns one
  composed Group per group row in table order: the row with its website row and the
  stores of that group attached. \<open>Stores\<close>, when it succeeds, returns one entry per
  store row in table order, entry \<open>i\<close> being the result of \<open>Store\<close> on the \<open>StoreID\<close> of
  row \<open>i\<close>; when the \<open>StoreID\<close>s of the table are distinct that is the view of row \<open>i\<close>
  itself.
\<close>

theorem bulk_one_view_per_row:
  "(Websites st = Inr ws \<longrightarrow>
      ws = map (\<lambda>w. \<lparr>w_Data = w,
                w_Groups = filter (\<lambda>g. tg_WebsiteID g = tw_WebsiteID w) (groups st),
                w_Stores = filter (\<lambda>s. ts_GroupID s \<in> set (map tg_GroupID
                                (filter (\<lambda>g. tg_WebsiteID g = tw_WebsiteID w) (groups st))))
                             (stores st)\<rparr>) (websites st)) \<and>
   (Groups st = Inr gs \<longrightarrow>
      gs = map (\<lambda>g. \<lparr>g_Data = g,
                g_Website = (case tws_FindByID (websites st) (tg_WebsiteID g) of
                               Inl err \<Rightarrow> None | Inr w \<Rightarrow> Some w),
                g_Stores = filter (\<lambda>s. ts_GroupID s = tg_GroupID g) (stores st)\<rparr>) (groups st) \<and>
      list_all (\<lambda>v. g_Website v \<noteq> None) gs) \<and>
   (Stores st = Inr vs \<longrightarrow>
      map (\<lambda>v. Inr v) vs = map (\<lambda>s. Store st (config_ScopeID (ts_StoreID s))) (stores st)) \<and>
   (Stores st = Inr vs \<and> distinct (map ts_StoreID (stores st)) \<longrightarrow> map s_Data vs = stores st)"
proof (intro conjI impI)
  assume "Websites st = Inr ws"
  then show "ws = map (\<lambda>w. \<lparr>w_Data = w,
                w_Groups = filter (\<lambda>g. tg_WebsiteID g = tw_WebsiteID w) (groups st),
                w_Stores = filter (\<lambda>s. ts_GroupID s \<in> set (map tg_GroupID
                                (filter (\<lambda>g. tg_WebsiteID g = tw_WebsiteID w) (groups st))))
                             (stores st)\<rparr>) (websites st)"
    unfolding Websites_def by (rule Websites_loop_Inr)
next
  assume h: "Groups st = Inr gs"
  then show "gs = map (\<lambda>g. \<lparr>g_Data = g,
                g_Website = (case tws_FindByID (websites st) (tg_WebsiteID g) of
                               Inl err \<Rightarrow> None | Inr w \<Rightarrow> Some w),
                g_Stores = filter (\<lambda>s. ts_GroupID s = tg_GroupID g) (stores st)\<rparr>) (groups st)"
    unfolding Groups_def by (rule Groups_loop_views)
  from h have "\<forall>v\<in>set gs. \<exists>w. g_Website v = Some w \<and> w \<in> set (websites st) \<and>
                          tw_WebsiteID w = tg_WebsiteID (g_Data v)"
    by (simp add: Groups_def Groups_loop_composed)
  then show "list_all (\<lambda>v. g_Website v \<noteq> None) gs"
    by (auto simp: list_all_iff)
next
  assume "Stores st = Inr vs"
  then show "map (\<lambda>v. Inr v) vs = map (\<lambda>s. Store st (config_ScopeID (ts_StoreID s))) (stores st)"
    by (simp add: Stores_def Stores_loop_lookup)
next
  assume "Stores st = Inr vs \<and> distinct (map ts_StoreID (stores st))"
  then show "map s_Data vs = stores st"
    by (auto simp: Stores_def intro: Stores_loop_rows)
qed

lemma ex2_Websites: "Websites ex_storage2 =
  Inr [\<lparr>w_Data = ex_website, w_Groups = [ex_group], w_Stores = [ex_store]\<rparr>,
       \<lparr>w_Data = ex_website2, w_Groups = [ex_group20], w_Stores = [ex_store200]\<rparr>]"
  by (simp add: Websites_def SetGroupsStores_def NewWebsite_def ex2_defs ex_defs)

lemma ex2_Groups: "Groups ex_storage2 =
  Inr [\<lparr>g_Data = ex_group, g_Website = Some ex_website, g_Stores = [ex_store]\<rparr>,
       \<lparr>g_Data = ex_group20, g_Website = Some ex_website2, g_Stores = [ex_store200]\<rparr>]"
  by (simp add: Groups_def website_ScopeID tws_FindByID_def NewGroup_def SetStores_def
      ex2_defs ex_defs)

lemma ex2_Stores: "Stores ex_storage2 =
  Inr [\<lparr>s_Data = ex_store,
        s_Website = \<lparr>w_Data = ex_website, w_Groups = [ex_group], w_Stores = [ex_store]\<rparr>,
        s_Group = \<lparr>g_Data = ex_group, g_Website = Some ex_website, g_Stores = [ex_store]\<rparr>\<rparr>,
       \<lparr>s_Data = ex_store200,
        s_Website = \<lparr>w_Data = ex_website2, w_Groups = [ex_group20], w_Stores = [ex_store200]\<rparr>,
        s_Group = \<lparr>g_Data = ex_group20, g_Website = Some ex_website2,
                   g_Stores = [ex_store200]\<rparr>\<rparr>]"
  by (simp add: Stores_def Store_def store_ScopeID website_ScopeID group_ScopeID
      tss_FindByID_def tws_FindByID_def tgs_FindByID_def NewStore_def NewWebsite_def
      NewGroup_def SetGroupsStores_def SetStores_def ex2_defs ex_defs)

theorem bulk_one_view_per_row_witness:
  "map w_Data (projr (Websites ex_storage2)) = [ex_website, ex_website2] \<and>
   map w_Groups (projr (Websites ex_storage2)) = [[ex_group], [ex_group20]] \<and>
   map w_Stores (projr (Websites ex_storage2)) = [[ex_store], [ex_store200]] \<and>
   map g_Data (projr (Groups ex_storage2)) = [ex_group, ex_group20] \<and>
   map g_Website (projr (Groups ex_storage2)) = [Some ex_website, Some ex_website2] \<and>
   map g_Stores (projr (Groups ex_storage2)) = [[ex_store], [ex_store200]] \<and>
   map s_Data (projr (Stores ex_storage2)) = [ex_store, ex_store200]"
proof -
  obtain ws gs vs where
    w: "Websites ex_storage2 = Inr ws" and g: "Groups ex_storage2 = Inr gs" and
    s: "Stores ex_storage2 = Inr vs"
    using ex2_Websites ex2_Groups ex2_Stores by blast
  have d: "distinct (map ts_StoreID (stores ex_storage2))"
    by (simp add: ex2_defs ex_defs)
  note inst = bulk_one_view_per_row [of ex_storage2 ws gs vs]
  from inst w have 1: "ws = map (\<lambda>w. \<lparr>w_Data = w,
                w_Groups = filter (\<lambda>g. tg_WebsiteID g = tw_WebsiteID w) (groups ex_storage2),
                w_Stores = filter (\<lambda>s. ts_GroupID s \<in> set (map tg_GroupID
                                (filter (\<lambda>g. tg_WebsiteID g = tw_WebsiteID w) (groups ex_storage2))))
                             (stores ex_storage2)\<rparr>) (websites ex_storage2)"
    by blast
  from inst g have 2: "gs = map (\<lambda>g. \<lparr>g_Data = g,
                g_Website = (case tws_FindByID (websites ex_storage2) (tg_WebsiteID g) of
                               Inl err \<Rightarrow> None | Inr w \<Rightarrow> Some w),
                g_Stores = filter (\<lambda>s. ts_GroupID s = tg_GroupID g) (stores ex_storage2)\<rparr>)
              (groups ex_storage2)"
    by blast
  from inst s d have 3: "map s_Data vs = stores ex_storage2" by blast
  have a: "map w_Data ws = [ex_website, ex_website2] \<and>
           map w_Groups ws = [[ex_group], [ex_group20]] \<and>
           map w_Stores ws = [[ex_store], [ex_store200]]"
    unfolding 1 by (simp add: ex2_defs ex_defs)
  have b: "map g_Data gs = [ex_group, ex_group20] \<and>
           map g_Website gs = [Some ex_website, Some ex_website2] \<and>
           map g_Stores gs = [[ex_store], [ex_store200]]"
    unfolding 2 by (simp add: tws_FindByID_def ex2_defs ex_defs)
  have c: "map s_Data vs = [ex_store, ex_store200]"
    unfolding 3 by (simp add: ex_storage2_def)
  from a b c show ?thesis by (simp add: w g s)
qed

section \<open>Reload failures\<close>

text \<open>
  C1 (the code at a failing input). The data source answers the store query with an
  error and the website query with one row. The stores goroutine runs first and the
  caller receives its error, clears the three tables and returns that error; the
  websites goroutine runs its \<open>Load\<close> only then. \<open>ReInit\<close> has returned its error and
  \<open>Websites\<close> returns a non-empty sequence: the caller does not wait for the other two
  goroutines before it returns.
\<close>

theorem ReInit_early_return_not_empty:
  "map_option (\<lambda>s. (caller s, Websites (storage s)))
     (ReInit_run ex_source early_return_schedule (ReInit_start NewStorage))
   = Some (Returned (Some (Masked (DataSourceError ''connection lost''))),
           Inr [\<lparr>w_Data = ex_website, w_Groups = [], w_Stores = []\<rparr>])"
  by (simp add: ex_source_def early_return_schedule_def ReInit_start_def NewStorage_def
      Websites_def SetGroupsStores_def NewWebsite_def)

text \<open>The late goroutine then sends on the channel that the return has closed.\<close>

lemma ReInit_early_return_panic:
  "map_option (\<lambda>s. goroutines s TWebsites)
     (ReInit_run ex_source (early_return_schedule @ [Send TWebsites]) (ReInit_start NewStorage))
   = Some Panicked"
  by (simp add: ex_source_def early_return_schedule_def ReInit_start_def NewStorage_def)

text \<open>
  The receive that makes \<open>ReInit\<close> return an error leaves all three tables empty at that
  moment, and they stay empty when every goroutine has finished its \<open>Load\<close> before the
  caller's first receive.
\<close>

lemma ReInit_error_return_clears:
  "ReInit_step ds (Send t) s = Some s' \<Longrightarrow> caller s = Receiving i \<Longrightarrow>
   caller s' = Returned (Some e) \<Longrightarrow> storage s' = NewStorage"
  by (auto simp: NewStorage_def split: goroutine.splits option.splits if_splits)

lemma ReInit_joined_failure:
  assumes "select_websites ds = Inl e \<or> select_groups ds = Inl e \<or> select_stores ds = Inl e"
  shows "\<exists>s e'. ReInit_run ds joined_schedule (ReInit_start st) = Some s \<and>
                caller s = Returned (Some e') \<and> storage s = NewStorage"
proof (cases "select_websites ds")
  case wl: (Inl a)
  show ?thesis
    by (cases "select_groups ds"; cases "select_stores ds")
      (simp_all add: wl joined_schedule_def ReInit_start_def NewStorage_def)
next
  case wr: (Inr a)
  show ?thesis
  proof (cases "select_groups ds")
    case gl: (Inl b)
    show ?thesis
      by (cases "select_stores ds")
        (simp_all add: wr gl joined_schedule_def ReInit_start_def NewStorage_def)
  next
    case gr: (Inr b)
    with wr assms obtain c where "select_stores ds = Inl c" by auto
    with wr gr show ?thesis
      by (simp add: joined_schedule_def ReInit_start_def NewStorage_def)
  qed
qed

section \<open>Reads during a reload\<close>



























section \<open>Configuration defaults\<close>

text \<open>
  C9. For a path with no recorded override at any scope, resolution at any scope
  returns the Field Definition default when the catalog has one for the path, and
  signals not-found when it has none.
\<close>

theorem resolve_no_override:
  assumes "\<forall>k i. overrides (k, i, p) = None"
  shows "(catalog p = Some d \<longrightarrow> resolve overrides catalog p sc = Inr d) \<and>
         (catalog p = None \<longrightarrow> resolve overrides catalog p sc = Inl NotFound)"
  using assms by (cases sc) (simp_all add: from_catalog_def)

theorem resolve_no_override_witness:
  "resolve Map.empty ex_catalog ''contact/email/recipient_email'' (StoreScope 100 1)
     = Inr ''hello@example.com'' \<and>
   resolve Map.empty ex_catalog ''contact/email/sender'' Global = Inl NotFound"
proof -
  have a: "\<forall>k i. (Map.empty :: scope_kind \<times> int64 \<times> path \<rightharpoonup> string)
                   (k, i, ''contact/email/recipient_email'') = None"
    and b: "\<forall>k i. (Map.empty :: scope_kind \<times> int64 \<times> path \<rightharpoonup> string)
                   (k, i, ''contact/email/sender'') = None"
    by simp_all
  have c: "ex_catalog ''contact/email/recipient_email'' = Some ''hello@example.com''"
    and d: "ex_catalog ''contact/email/sender'' = None"
    by (simp_all add: ex_catalog_def)
  from resolve_no_override [where catalog = ex_catalog and sc = "StoreScope 100 1", OF a] c
    resolve_no_override [where catalog = ex_catalog and sc = Global, OF b] d
  show ?thesis by blast
qed

end
